theory Spec2Isabelle
  imports Complex_Main
begin

section \<open>RealBasicVSRNet: data model\<close>

text \<open>
  The module \<^verbatim>\<open>realbasicvsr/models/backbones/real_basicvsr_net.py\<close> defines one class,
  \<^verbatim>\<open>RealBasicVSRNet\<close>, with a constructor, \<^verbatim>\<open>forward\<close> and \<^verbatim>\<open>init_weights\<close>.
  Its collaborators (the tensor library, the residual blocks, \<^verbatim>\<open>BasicVSRNet\<close>, the
  checkpoint loader) are other packages' code: the tensor operations that \<^verbatim>\<open>forward\<close> calls
  are written out below, the networks and the loader are arguments of the model.

  Tensor elements are real numbers: the rounding inside the networks is outside the
  model. Where \<^verbatim>\<open>forward\<close> itself depends on floating point it is modelled: the threshold
  is a double that is compared in single precision, and the reduction
  \<^verbatim>\<open>torch.mean(torch.abs(...))\<close> is an argument of the model. A frame holds the
  \<open>c * h * w\<close> values of one image. A tensor carries its shape explicitly, so that shapes
  with a zero dimension are distinguished.
\<close>

type_synonym frame = "real list"

text \<open>
  Of the memory layout of a 5-dimensional tensor \<^verbatim>\<open>forward\<close> can observe one thing: whether
  \<^verbatim>\<open>view(-1, c, h, w)\<close> may merge its first two axes. \<open>Strides sn st\<close> gives the strides, in
  elements, of the axes \<open>n\<close> and \<open>t\<close> of a tensor as the caller made it. \<open>Split_axis\<close> is the
  layout of a tensor whose axes \<open>n\<close> and \<open>t\<close> were cut by \<^verbatim>\<open>view(n, t, ...)\<close> from one axis of
  some stride \<open>s\<close>: their strides are \<open>(t * s, s)\<close>. The elements of a tensor are taken to
  lie at different places in memory (no \<^verbatim>\<open>expand\<close>).
\<close>

datatype layout = Strides nat nat | Split_axis

text \<open>A 5-dimensional tensor of shape \<open>(n, t, c, h, w)\<close>: \<open>n\<close> rows of \<open>t\<close> frames.\<close>

record clip =
  clip_n :: nat
  clip_t :: nat
  clip_c :: nat
  clip_h :: nat
  clip_w :: nat
  clip_rows :: "frame list list"
  clip_layout :: layout

text \<open>A 4-dimensional tensor of shape \<open>(b, c, h, w)\<close>: \<open>b\<close> frames.\<close>

record batch =
  batch_b :: nat
  batch_c :: nat
  batch_h :: nat
  batch_w :: nat
  batch_frames :: "frame list"



text \<open>
  Exceptions. \<open>RuntimeError\<close> is what the tensor library raises, \<open>TypeError\<close> is raised by
  \<^verbatim>\<open>init_weights\<close> itself, \<open>OverflowError\<close> by the division in the constructor, and
  \<open>Propagated\<close> wraps whatever a collaborator raised, which passes through this module
  unchanged.
\<close>

type_synonym exn = string

datatype error = RuntimeError string | TypeError string | OverflowError | Propagated exn

text \<open>
  Tensor objects live in a store and are named by their address, because \<^verbatim>\<open>forward\<close>
  writes into the tensor it was given. A new tensor is put at the end of the store.
  Tensors at different addresses have different storage: a tensor that shares storage
  with the caller's clip (a view of it, or the tensor it is a view of) is not represented.
\<close>

type_synonym addr = nat
type_synonym store = "clip list"

section \<open>Doubles and single-precision numbers\<close>

text \<open>
  Rounding to a binary floating-point format with \<open>p\<close> bits of precision and least normal
  exponent \<open>emin\<close>: to the nearest multiple of the unit in the last place, ties to the even
  multiple. A double has \<open>p = 53\<close>, \<open>emin = -1022\<close> and is finite below \<open>2 ^ 1024\<close>; a
  single-precision number has \<open>p = 24\<close>, \<open>emin = -126\<close> and is finite below \<open>2 ^ 128\<close>.
\<close>

definition pow2 :: "int \<Rightarrow> real" where
  "pow2 k = (if 0 \<le> k then 2 ^ nat k else inverse (2 ^ nat (- k)))"

definition round_even :: "real \<Rightarrow> int" where
  "round_even q =
     (let f = \<lfloor>q\<rfloor>; d = q - of_int f
      in if d < 1 / 2 then f else if 1 / 2 < d then f + 1 else if even f then f else f + 1)"

definition exponent :: "real \<Rightarrow> int" where
  "exponent x = \<lfloor>log 2 \<bar>x\<bar>\<rfloor>"

definition round_binary :: "nat \<Rightarrow> int \<Rightarrow> real \<Rightarrow> real" where
  "round_binary p emin x =
     (if x = 0 then 0
      else let u = pow2 (max (exponent x) emin - int p + 1)
           in of_int (round_even (x / u)) * u)"

text \<open>
  \<^verbatim>\<open>dynamic_refine_thres / 255.\<close> in Python. The argument is a number, an \<^verbatim>\<open>int\<close> or a
  \<^verbatim>\<open>float\<close> that is finite: an \<^verbatim>\<open>int\<close> is converted to a double first, which raises when
  it is too large, a \<^verbatim>\<open>float\<close> is a double already. The quotient is a double.
\<close>

definition py_float :: "real \<Rightarrow> error + real" where
  "py_float x =
     (let d = round_binary 53 (- 1022) x
      in if pow2 1024 \<le> \<bar>d\<bar> then Inl OverflowError else Inr d)"

definition py_truediv :: "real \<Rightarrow> real \<Rightarrow> error + real" where
  "py_truediv x y =
     (case py_float x of
        Inl e \<Rightarrow> Inl e
      | Inr d \<Rightarrow> Inr (round_binary 53 (- 1022) (d / y)))"

text \<open>A double as a single-precision number: it may round to an infinity.\<close>

datatype float32 = F32_NInf | F32 real | F32_PInf

definition to_float32 :: "real \<Rightarrow> float32" where
  "to_float32 x =
     (let r = round_binary 24 (- 126) x
      in if pow2 128 \<le> r then F32_PInf else if r \<le> - pow2 128 then F32_NInf else F32 r)"

text \<open>
  What \<^verbatim>\<open>torch.mean(torch.abs(...))\<close> can be: a single-precision number that is not negative,
  that is NaN, infinity, or \<open>k\<close> times the least positive single-precision number
  \<open>2 ^ -149\<close>. (An absolute value is not negative, and neither are single-precision sums
  and quotients of numbers that are not.) The reduction itself is the library's: it adds
  in single precision in an order of its choosing. It is an argument of the model, a
  function of the list of the absolute values.
\<close>

datatype mean32 = Mean_NaN | Mean_Inf | Mean_Units nat

type_synonym reduction = "real list \<Rightarrow> mean32"

section \<open>The tensor operations used by forward\<close>

definition batch_shape :: "batch \<Rightarrow> nat \<times> nat \<times> nat \<times> nat" where
  "batch_shape x = (batch_b x, batch_c x, batch_h x, batch_w x)"

text \<open>\<^verbatim>\<open>lqs.size()\<close>\<close>

definition size5 :: "clip \<Rightarrow> nat \<times> nat \<times> nat \<times> nat \<times> nat" where
  "size5 x = (clip_n x, clip_t x, clip_c x, clip_h x, clip_w x)"

text \<open>\<^verbatim>\<open>lqs[:, i, :, :, :]\<close> read: frame \<open>i\<close> of every row, a tensor of shape \<open>(n, c, h, w)\<close>.\<close>

definition select_time :: "clip \<Rightarrow> nat \<Rightarrow> batch" where
  "select_time x i =
     \<lparr>batch_b = clip_n x, batch_c = clip_c x, batch_h = clip_h x, batch_w = clip_w x,
      batch_frames = map (\<lambda>r. r ! i) (clip_rows x)\<rparr>"

definition add_frame :: "frame \<Rightarrow> frame \<Rightarrow> frame" where
  "add_frame f g = map2 (+) f g"

text \<open>
  \<^verbatim>\<open>lqs[:, i, :, :, :] += residue_i\<close>: the addition is written into the tensor itself.
  The shapes have to agree (the cleaning module ends in a stride-1 padded convolution to
  3 channels and returns the shape it was given; broadcasting of smaller shapes is not
  modelled).
\<close>

definition iadd_time :: "clip \<Rightarrow> nat \<Rightarrow> batch \<Rightarrow> error + clip" where
  "iadd_time x i r =
     (if batch_shape r = (clip_n x, clip_c x, clip_h x, clip_w x)
      then Inr (x\<lparr>clip_rows :=
                  map2 (\<lambda>row f. row[i := add_frame (row ! i) f]) (clip_rows x) (batch_frames r)\<rparr>)
      else Inl (RuntimeError ''size mismatch in add''))"

text \<open>
  \<^verbatim>\<open>torch.stack(residues, dim=1)\<close>: refuses an empty list and tensors of different shapes.
  The result is a new, contiguous tensor.
\<close>

definition stack_dim1 :: "batch list \<Rightarrow> error + clip" where
  "stack_dim1 ts =
     (case ts of
        [] \<Rightarrow> Inl (RuntimeError ''stack expects a non-empty TensorList'')
      | x # _ \<Rightarrow>
          if list_all (\<lambda>y. batch_shape y = batch_shape x) ts
          then Inr \<lparr>clip_n = batch_b x, clip_t = length ts, clip_c = batch_c x,
                    clip_h = batch_h x, clip_w = batch_w x,
                    clip_rows = map (\<lambda>b. map (\<lambda>y. batch_frames y ! b) ts) [0..<batch_b x],
                    clip_layout = Strides (length ts * (batch_c x * batch_h x * batch_w x))
                                    (batch_c x * batch_h x * batch_w x)\<rparr>
          else Inl (RuntimeError ''stack expects each tensor to be equal size''))"

text \<open>
  \<^verbatim>\<open>lqs.view(-1, c, h, w)\<close>: the first dimension is inferred from the number of elements.
  When \<open>c * h * w = 0\<close> and the tensor has no elements the inferred dimension is ambiguous
  and the library raises; when the number of elements is no multiple of \<open>c * h * w\<close> the
  shape is invalid. \<^verbatim>\<open>forward\<close> passes the \<open>c\<close>, \<open>h\<close>, \<open>w\<close> it read from the tensor's own
  size; cutting a tensor into frames of another size does not occur there and is not
  represented (last branch). With the shape accepted, the view exists only if the strides
  allow the axes \<open>n\<close> and \<open>t\<close> to be merged (\<open>mergeable\<close>): the tensor has no elements, or one
  of the two axes has size 1, or the stride of \<open>n\<close> is \<open>t\<close> times the stride of \<open>t\<close>, as in a
  contiguous tensor. Otherwise the library raises. The frames of the view keep their
  order: row after row.
\<close>

definition clip_numel :: "clip \<Rightarrow> nat" where
  "clip_numel x = clip_n x * clip_t x * clip_c x * clip_h x * clip_w x"

definition batch_numel :: "batch \<Rightarrow> nat" where
  "batch_numel x = batch_b x * batch_c x * batch_h x * batch_w x"

definition mergeable :: "clip \<Rightarrow> bool" where
  "mergeable x \<longleftrightarrow>
     clip_numel x = 0 \<or> clip_n x = 1 \<or> clip_t x = 1 \<or>
     (case clip_layout x of Strides sn st \<Rightarrow> sn = clip_t x * st | Split_axis \<Rightarrow> True)"

definition view4 :: "clip \<Rightarrow> nat \<Rightarrow> nat \<Rightarrow> nat \<Rightarrow> error + batch" where
  "view4 x c h w =
     (if c * h * w = 0 then
        (if clip_numel x = 0
         then Inl (RuntimeError ''cannot reshape tensor of 0 elements: -1 is ambiguous'')
         else Inl (RuntimeError ''shape is invalid for input size''))
      else if (c, h, w) = (clip_c x, clip_h x, clip_w x)
      then (if mergeable x
            then Inr \<lparr>batch_b = clip_n x * clip_t x, batch_c = c, batch_h = h, batch_w = w,
                      batch_frames = concat (clip_rows x)\<rparr>
            else Inl (RuntimeError ''view size is not compatible with input size and stride''))
      else Inl (RuntimeError ''shape is invalid for input size''))"

text \<open>\<^verbatim>\<open>lqs + residues\<close>: a new tensor.\<close>

definition tensor_add :: "batch \<Rightarrow> batch \<Rightarrow> error + batch" where
  "tensor_add x r =
     (if batch_shape r = batch_shape x
      then Inr (x\<lparr>batch_frames := map2 add_frame (batch_frames x) (batch_frames r)\<rparr>)
      else Inl (RuntimeError ''size mismatch in add''))"

text \<open>
  \<^verbatim>\<open>(...).view(n, t, c, h, w)\<close>: the frames are regrouped into \<open>n\<close> rows of \<open>t\<close>. Cutting one
  axis in two is possible whatever its stride.
\<close>

definition unflatten :: "nat \<Rightarrow> nat \<Rightarrow> 'a list \<Rightarrow> 'a list list" where
  "unflatten n t fs = map (\<lambda>b. take t (drop (b * t) fs)) [0..<n]"

definition view5 :: "batch \<Rightarrow> nat \<Rightarrow> nat \<Rightarrow> nat \<Rightarrow> nat \<Rightarrow> nat \<Rightarrow> error + clip" where
  "view5 x n t c h w =
     (if batch_shape x = (n * t, c, h, w)
      then Inr \<lparr>clip_n = n, clip_t = t, clip_c = c, clip_h = h, clip_w = w,
                clip_rows = unflatten n t (batch_frames x), clip_layout = Split_axis\<rparr>
      else Inl (RuntimeError ''shape is invalid for input size''))"

text \<open>
  \<^verbatim>\<open>torch.mean(torch.abs(residues))\<close>, with the library's reduction \<open>rd\<close>. \<^verbatim>\<open>residues\<close> is
  5-dimensional after the sequential branch and 4-dimensional after the batched one. The
  mean of a tensor without elements is NaN.
\<close>

datatype residues = Res4 batch | Res5 clip

definition mean_abs_of :: "reduction \<Rightarrow> nat \<Rightarrow> real list \<Rightarrow> mean32" where
  "mean_abs_of rd numel xs = (if numel = 0 then Mean_NaN else rd (map abs xs))"

fun mean_abs :: "reduction \<Rightarrow> residues \<Rightarrow> mean32" where
  "mean_abs rd (Res4 r) = mean_abs_of rd (batch_numel r) (concat (batch_frames r))"
| "mean_abs rd (Res5 r) = mean_abs_of rd (clip_numel r) (concat (concat (clip_rows r)))"

text \<open>
  \<^verbatim>\<open>... < self.dynamic_refine_thres\<close>: a single-precision tensor without dimensions against
  a Python \<^verbatim>\<open>float\<close>. The comparison is made in single precision, so the threshold is
  rounded to it first. A comparison with NaN is false, and infinity is below nothing.
\<close>

fun below :: "real \<Rightarrow> float32 \<Rightarrow> bool" where
  "below v F32_NInf = False"
| "below v (F32 t) = (v < t)"
| "below v F32_PInf = True"

definition tensor_lt :: "mean32 \<Rightarrow> real \<Rightarrow> bool" where
  "tensor_lt m thres =
     (case m of
        Mean_NaN \<Rightarrow> False
      | Mean_Inf \<Rightarrow> False
      | Mean_Units k \<Rightarrow> below (real k * pow2 (- 149)) (to_float32 thres))"

section \<open>The module and its constructor\<close>

text \<open>
  A parameter tensor is reduced to what the module touches: its values and its
  \<^verbatim>\<open>requires_grad\<close> flag. \<^verbatim>\<open>Module.requires_grad_(flag)\<close> sets the flag of every
  parameter of the module and leaves the values alone.
\<close>

record param =
  param_values :: "real list"
  requires_grad :: bool

definition requires_grad_' :: "bool \<Rightarrow> param list \<Rightarrow> param list" where
  "requires_grad_' flag ps = map (\<lambda>p. p\<lparr>requires_grad := flag\<rparr>) ps"

text \<open>
  \<^verbatim>\<open>BasicVSRNet\<close> as far as the constructor looks into it: the parameters of its flow
  estimator \<^verbatim>\<open>spynet\<close> and all its other parameters.
\<close>

record basicvsr_net =
  spynet :: "param list"
  propagation :: "param list"

record real_basicvsr_net =
  dynamic_refine_thres :: real
  is_sequential_cleaning :: bool
  image_cleaning :: "param list"
  basicvsr :: basicvsr_net

text \<open>
  \<^verbatim>\<open>__init__\<close>. The two constructors it calls are arguments: \<open>new_cleaning\<close> stands for
  \<^verbatim>\<open>nn.Sequential(ResidualBlocksWithInputConv(3, mid_channels, num_cleaning_blocks),
  nn.Conv2d(mid_channels, 3, 3, 1, 1, bias=True))\<close> and \<open>new_basicvsr\<close> for
  \<^verbatim>\<open>BasicVSRNet(mid_channels, num_propagation_blocks, spynet_pretrained)\<close>, which may raise.
  The division of the threshold comes first.
\<close>

definition init ::
  "(nat \<Rightarrow> nat \<Rightarrow> param list) \<Rightarrow> (nat \<Rightarrow> nat \<Rightarrow> string option \<Rightarrow> exn + basicvsr_net) \<Rightarrow>
   nat \<Rightarrow> nat \<Rightarrow> nat \<Rightarrow> real \<Rightarrow> string option \<Rightarrow> bool \<Rightarrow> bool \<Rightarrow> error + real_basicvsr_net" where
  "init new_cleaning new_basicvsr mid_channels num_propagation_blocks num_cleaning_blocks
        thres spynet_pretrained is_fix_cleaning is_sequential =
     (case py_truediv thres 255 of
        Inl e \<Rightarrow> Inl e
      | Inr normalized \<Rightarrow>
          (let cleaning0 = new_cleaning mid_channels num_cleaning_blocks;
               cleaning = (if is_fix_cleaning then requires_grad_' False cleaning0 else cleaning0)
           in case new_basicvsr mid_channels num_propagation_blocks spynet_pretrained of
                Inl e \<Rightarrow> Inl (Propagated e)
              | Inr b \<Rightarrow>
                  Inr \<lparr>dynamic_refine_thres = normalized,
                       is_sequential_cleaning = is_sequential,
                       image_cleaning = cleaning,
                       basicvsr = b\<lparr>spynet := requires_grad_' False (spynet b)\<rparr>\<rparr>))"

section \<open>forward\<close>

text \<open>
  The networks' forward passes are functions of their parameter values and their input:
  \<open>cleaning_fwd\<close> for \<^verbatim>\<open>self.image_cleaning(...)\<close> and \<open>basicvsr_fwd\<close> for
  \<^verbatim>\<open>self.basicvsr(...)\<close>. Either may raise.
\<close>

type_synonym cleaning_fwd = "real list list \<Rightarrow> batch \<Rightarrow> exn + batch"
type_synonym basicvsr_fwd = "real list list \<Rightarrow> real list list \<Rightarrow> clip \<Rightarrow> exn + clip"

definition call_cleaning :: "cleaning_fwd \<Rightarrow> real_basicvsr_net \<Rightarrow> batch \<Rightarrow> exn + batch" where
  "call_cleaning cf m x = cf (map param_values (image_cleaning m)) x"

definition call_basicvsr :: "basicvsr_fwd \<Rightarrow> real_basicvsr_net \<Rightarrow> clip \<Rightarrow> exn + clip" where
  "call_basicvsr bf m x =
     bf (map param_values (spynet (basicvsr m))) (map param_values (propagation (basicvsr m))) x"

text \<open>
  The inner loop of the sequential branch, \<^verbatim>\<open>for i in range(0, t)\<close>, over the list of the
  indices still to visit. \<open>lqs\<close> is the address of the tensor being cleaned; every step
  writes into it, so what was written stays written when a later step raises.
\<close>

fun sequential_frames ::
  "(batch \<Rightarrow> exn + batch) \<Rightarrow> addr \<Rightarrow> nat list \<Rightarrow> store \<Rightarrow> batch list \<Rightarrow> (error + batch list) \<times> store" where
  "sequential_frames ic lqs [] st residues = (Inr residues, st)"
| "sequential_frames ic lqs (i # is) st residues =
     (case ic (select_time (st ! lqs) i) of
        Inl e \<Rightarrow> (Inl (Propagated e), st)
      | Inr residue_i \<Rightarrow>
          (case iadd_time (st ! lqs) i residue_i of
             Inl e \<Rightarrow> (Inl e, st)
           | Inr x \<Rightarrow> sequential_frames ic lqs is (st[lqs := x]) (residues @ [residue_i])))"

text \<open>
  One pass of the outer loop up to the threshold test: the residues and the address that
  \<^verbatim>\<open>lqs\<close> is bound to afterwards. The sequential branch keeps the address; the batched
  branch binds \<^verbatim>\<open>lqs\<close> to a new tensor.
\<close>

definition cleaning_pass ::
  "(batch \<Rightarrow> exn + batch) \<Rightarrow> bool \<Rightarrow> nat \<times> nat \<times> nat \<times> nat \<times> nat \<Rightarrow> store \<Rightarrow> addr \<Rightarrow>
   (error + residues \<times> addr) \<times> store" where
  "cleaning_pass ic sequential dims st lqs =
     (case dims of (n, t, c, h, w) \<Rightarrow>
      if sequential then
        (case sequential_frames ic lqs [0..<t] st [] of
           (Inl e, st') \<Rightarrow> (Inl e, st')
         | (Inr rs, st') \<Rightarrow>
             (case stack_dim1 rs of
                Inl e \<Rightarrow> (Inl e, st')
              | Inr r \<Rightarrow> (Inr (Res5 r, lqs), st')))
      else
        (case view4 (st ! lqs) c h w of
           Inl e \<Rightarrow> (Inl e, st)
         | Inr x \<Rightarrow>
             (case ic x of
                Inl e \<Rightarrow> (Inl (Propagated e), st)
              | Inr r \<Rightarrow>
                  (case tensor_add x r of
                     Inl e \<Rightarrow> (Inl e, st)
                   | Inr s \<Rightarrow>
                       (case view5 s n t c h w of
                          Inl e \<Rightarrow> (Inl e, st)
                        | Inr y \<Rightarrow> (Inr (Res4 r, length st), st @ [y]))))))"

text \<open>
  The outer loop, \<^verbatim>\<open>for _ in range(0, 3)\<close>, over the list of the iterations still to run.
  The first component of the result counts the passes that were begun; the program does
  not compute it.
\<close>

fun refine_loop ::
  "reduction \<Rightarrow> (batch \<Rightarrow> exn + batch) \<Rightarrow> bool \<Rightarrow> real \<Rightarrow> nat \<times> nat \<times> nat \<times> nat \<times> nat \<Rightarrow>
   nat list \<Rightarrow> store \<Rightarrow> addr \<Rightarrow> nat \<times> (error + addr) \<times> store" where
  "refine_loop rd ic sequential thres dims [] st lqs = (0, Inr lqs, st)"
| "refine_loop rd ic sequential thres dims (_ # rest) st lqs =
     (case cleaning_pass ic sequential dims st lqs of
        (Inl e, st') \<Rightarrow> (1, Inl e, st')
      | (Inr (res, lqs'), st') \<Rightarrow>
          if tensor_lt (mean_abs rd res) thres then (1, Inr lqs', st')
          else (case refine_loop rd ic sequential thres dims rest st' lqs' of
                  (k, r, st'') \<Rightarrow> (Suc k, r, st'')))"

definition cleaning ::
  "reduction \<Rightarrow> cleaning_fwd \<Rightarrow> real_basicvsr_net \<Rightarrow> store \<Rightarrow> addr \<Rightarrow>
   nat \<times> (error + addr) \<times> store" where
  "cleaning rd cf m st lqs =
     refine_loop rd (call_cleaning cf m) (is_sequential_cleaning m) (dynamic_refine_thres m)
       (size5 (st ! lqs)) [0..<3] st lqs"

text \<open>
  What a call returns. In \<^verbatim>\<open>forward\<close> the branch for \<^verbatim>\<open>return_lqs\<close> is the expression
  statement \<^verbatim>\<open>outputs, lqs\<close>; control then reaches the end of the function, which returns
  \<^verbatim>\<open>None\<close>. Only the other branch has a \<^verbatim>\<open>return\<close>.
\<close>

datatype returned = Returned_None | Returned clip | Returned_pair clip clip

definition forward ::
  "reduction \<Rightarrow> cleaning_fwd \<Rightarrow> basicvsr_fwd \<Rightarrow> real_basicvsr_net \<Rightarrow> store \<Rightarrow> addr \<Rightarrow> bool \<Rightarrow>
   (error + returned) \<times> store" where
  "forward rd cf bf m st lqs return_lqs =
     (case cleaning rd cf m st lqs of
        (_, Inl e, st') \<Rightarrow> (Inl e, st')
      | (_, Inr lqs', st') \<Rightarrow>
          (case call_basicvsr bf m (st' ! lqs') of
             Inl e \<Rightarrow> (Inl (Propagated e), st')
           | Inr outputs \<Rightarrow>
               if return_lqs then (Inr Returned_None, st')
               else (Inr (Returned outputs), st')))"

definition cleaning_iterations ::
  "reduction \<Rightarrow> cleaning_fwd \<Rightarrow> real_basicvsr_net \<Rightarrow> store \<Rightarrow> addr \<Rightarrow> nat" where
  "cleaning_iterations rd cf m st lqs = fst (cleaning rd cf m st lqs)"

definition cleaned_clip ::
  "reduction \<Rightarrow> cleaning_fwd \<Rightarrow> real_basicvsr_net \<Rightarrow> store \<Rightarrow> addr \<Rightarrow> error + clip" where
  "cleaned_clip rd cf m st lqs =
     (case cleaning rd cf m st lqs of
        (_, Inl e, _) \<Rightarrow> Inl e
      | (_, Inr lqs', st') \<Rightarrow> Inr (st' ! lqs'))"

section \<open>init_weights\<close>

text \<open>
  The argument \<^verbatim>\<open>pretrained\<close> is any Python value. \<open>type_name\<close> is the name of its class
  and \<open>type_repr\<close> what \<^verbatim>\<open>f'{type(pretrained)}'\<close> prints.
\<close>

datatype py_value =
  PyNone | PyStr string | PyBool bool | PyInt int | PyFloat real
  | PyList "py_value list" | PyDict "(py_value \<times> py_value) list"

fun type_name :: "py_value \<Rightarrow> string" where
  "type_name PyNone = ''NoneType''"
| "type_name (PyStr _) = ''str''"
| "type_name (PyBool _) = ''bool''"
| "type_name (PyInt _) = ''int''"
| "type_name (PyFloat _) = ''float''"
| "type_name (PyList _) = ''list''"
| "type_name (PyDict _) = ''dict''"

definition type_repr :: "py_value \<Rightarrow> string" where
  "type_repr v = ''<class '' @ [CHR 0x27] @ type_name v @ [CHR 0x27] @ ''>''"

definition type_error_message :: "py_value \<Rightarrow> string" where
  "type_error_message v =
     [CHR 0x22] @ ''pretrained'' @ [CHR 0x22] @ '' must be a str or None. ''
     @ ''But received '' @ type_repr v @ ''.''"

text \<open>
  \<^verbatim>\<open>init_weights\<close>, in the order of the source: a string is handed to the checkpoint loader
  (an argument here; it returns the module with the loaded weights or raises), any other
  value but \<^verbatim>\<open>None\<close> raises, and \<^verbatim>\<open>None\<close> falls through.
\<close>

definition init_weights ::
  "(real_basicvsr_net \<Rightarrow> string \<Rightarrow> bool \<Rightarrow> exn + real_basicvsr_net) \<Rightarrow>
   real_basicvsr_net \<Rightarrow> py_value \<Rightarrow> bool \<Rightarrow> error + real_basicvsr_net" where
  "init_weights load_checkpoint self pretrained strict =
     (case pretrained of
        PyStr path \<Rightarrow>
          (case load_checkpoint self path strict of
             Inl e \<Rightarrow> Inl (Propagated e)
           | Inr self' \<Rightarrow> Inr self')
      | PyNone \<Rightarrow> Inr self
      | _ \<Rightarrow> Inl (TypeError (type_error_message pretrained)))"

section \<open>The collaborator's contract\<close>

text \<open>
  Modelled from the spec: \<^verbatim>\<open>BasicVSRNet.forward\<close> is not part of this module's source. Of the
  propagation network the specification says that it "accepts a cleaned clip, returns an
  upscaled clip, fixed at 4x spatial scale"; \<open>upscales_x4\<close> is that contract for a forward
  function, whenever it returns.
\<close>

definition upscales_x4 :: "basicvsr_fwd \<Rightarrow> bool" where
  "upscales_x4 bf \<longleftrightarrow>
     (\<forall>ws1 ws2 x y. bf ws1 ws2 x = Inr y \<longrightarrow>
        clip_h y = 4 * clip_h x \<and> clip_w y = 4 * clip_w x)"


section \<open>One pass, frame by frame\<close>







section \<open>Concrete inputs\<close>

text \<open>
  A contiguous clip of shape \<open>(1, 2, 1, 1, 1)\<close> and the same clip without frames,
  \<open>(1, 0, 1, 1, 1)\<close>.
\<close>

definition example_clip :: clip where
  "example_clip =
     \<lparr>clip_n = 1, clip_t = 2, clip_c = 1, clip_h = 1, clip_w = 1, clip_rows = [[[1], [2]]],
      clip_layout = Strides 2 1\<rparr>"

definition empty_clip :: clip where
  "empty_clip =
     \<lparr>clip_n = 1, clip_t = 0, clip_c = 1, clip_h = 1, clip_w = 1, clip_rows = [[]],
      clip_layout = Strides 1 1\<rparr>"

text \<open>
  Clips of three channels. \<open>rgb_clip\<close> has shape \<open>(1, 1, 3, 1, 1)\<close> and is contiguous.
  \<open>rgb_no_frames\<close> has shape \<open>(1, 0, 3, 1, 1)\<close> and \<open>rgb_no_pixels\<close> shape \<open>(1, 1, 3, 0, 1)\<close>.
  \<open>rgb_contiguous\<close> has shape \<open>(2, 2, 3, 1, 1)\<close> and is contiguous; \<open>rgb_transposed\<close> has
  the same shape and values and is what \<^verbatim>\<open>transpose(0, 1)\<close> makes of a contiguous tensor:
  the stride of its first axis is 3, that of its second axis 6.
\<close>

definition rgb_clip :: clip where
  "rgb_clip =
     \<lparr>clip_n = 1, clip_t = 1, clip_c = 3, clip_h = 1, clip_w = 1, clip_rows = [[[1, 2, 3]]],
      clip_layout = Strides 3 3\<rparr>"





text \<open>
  A reduction without rounding: the mean, as a multiple of \<open>2 ^ -149\<close>. At the inputs
  below the means are single-precision numbers.
\<close>

definition example_mean :: reduction where
  "example_mean xs = Mean_Units (nat \<lfloor>sum_list xs / real (length xs) * 2 ^ 149\<rfloor>)"

text \<open>A cleaning network whose residue is 1 everywhere.\<close>

definition example_residue :: "real list list \<Rightarrow> frame \<Rightarrow> frame" where
  "example_residue ws f = map (\<lambda>v. 1) f"

definition example_cleaning :: cleaning_fwd where
  "example_cleaning ws x = Inr (x\<lparr>batch_frames := map (example_residue ws) (batch_frames x)\<rparr>)"

text \<open>
  A cleaning network whose residue is, everywhere, the single-precision number nearest
  to 0.7.
\<close>

definition near_07 :: real where
  "near_07 = 11744051 / 16777216"

definition near_07_cleaning :: cleaning_fwd where
  "near_07_cleaning ws x =
     Inr (x\<lparr>batch_frames := map (map (\<lambda>v. near_07)) (batch_frames x)\<rparr>)"

text \<open>A propagation network that repeats every frame 16 times over.\<close>

definition example_basicvsr :: basicvsr_fwd where
  "example_basicvsr ws1 ws2 x =
     Inr (x\<lparr>clip_h := 4 * clip_h x, clip_w := 4 * clip_w x,
            clip_rows := map (map (\<lambda>f. concat (replicate 16 f))) (clip_rows x)\<rparr>)"

definition example_param :: param where
  "example_param = \<lparr>param_values = [1 / 2], requires_grad = True\<rparr>"

definition example_new_cleaning :: "nat \<Rightarrow> nat \<Rightarrow> param list" where
  "example_new_cleaning mid_channels num_blocks = [example_param, example_param]"

definition example_new_basicvsr :: "nat \<Rightarrow> nat \<Rightarrow> string option \<Rightarrow> exn + basicvsr_net" where
  "example_new_basicvsr mid_channels num_blocks pretrained =
     Inr \<lparr>spynet = [example_param], propagation = [example_param]\<rparr>"

definition example_net :: "real \<Rightarrow> bool \<Rightarrow> bool \<Rightarrow> real_basicvsr_net" where
  "example_net thres is_fix_cleaning is_sequential =
     \<lparr>dynamic_refine_thres = thres / 255,
      is_sequential_cleaning = is_sequential,
      image_cleaning = (if is_fix_cleaning then requires_grad_' False [example_param, example_param]
                        else [example_param, example_param]),
      basicvsr = \<lparr>spynet = requires_grad_' False [example_param], propagation = [example_param]\<rparr>\<rparr>"

text \<open>
  The module that the constructor makes at the threshold 178.5: the double nearest to
  \<open>178.5 / 255\<close> is \<open>3152519739159347 / 2 ^ 52\<close>, a little below 0.7.
\<close>

definition net_178_5 :: real_basicvsr_net where
  "net_178_5 =
     \<lparr>dynamic_refine_thres = 3152519739159347 / 4503599627370496,
      is_sequential_cleaning = False,
      image_cleaning = [example_param, example_param],
      basicvsr = \<lparr>spynet = requires_grad_' False [example_param], propagation = [example_param]\<rparr>\<rparr>"

definition example_loader :: "real_basicvsr_net \<Rightarrow> string \<Rightarrow> bool \<Rightarrow> exn + real_basicvsr_net" where
  "example_loader self path strict = Inr self"

section \<open>Rounding at given numbers\<close>

lemma pow2_powr: "pow2 k = 2 powr (real_of_int k)"
  by (simp add: pow2_def powr_int inverse_eq_divide)

lemma pow2_pos: "0 < pow2 k"
  by (simp add: pow2_def)

lemma exponent_eq:
  assumes "pow2 k \<le> \<bar>x\<bar>" and "\<bar>x\<bar> < pow2 (k + 1)"
  shows "exponent x = k"
proof -
  from assms(1) pow2_pos [of k] have pos: "0 < \<bar>x\<bar>" by linarith
  from assms have "2 powr (real_of_int k) \<le> \<bar>x\<bar> \<and> \<bar>x\<bar> < 2 powr (real_of_int (k + 1))"
    by (simp only: pow2_powr)
  with floor_log_eq_powr_iff [OF pos, of 2 k] show ?thesis
    by (simp add: exponent_def)
qed

lemma round_binary_eq:
  assumes "pow2 k \<le> \<bar>x\<bar>" and "\<bar>x\<bar> < pow2 (k + 1)"
  shows "round_binary p emin x
         = of_int (round_even (x / pow2 (max k emin - int p + 1))) * pow2 (max k emin - int p + 1)"
proof -
  from assms(1) pow2_pos [of k] have "x \<noteq> 0" by auto
  with exponent_eq [OF assms] show ?thesis by (simp add: round_binary_def Let_def)
qed

lemma double_255: "round_binary 53 (- 1022) 255 = 255"
  by (subst round_binary_eq [of 7]) (simp_all add: pow2_def round_even_def)

lemma double_510: "round_binary 53 (- 1022) 510 = 510"
  by (subst round_binary_eq [of 8]) (simp_all add: pow2_def round_even_def)

lemma double_1: "round_binary 53 (- 1022) 1 = 1"
  by (subst round_binary_eq [of 0]) (simp_all add: pow2_def round_even_def)

lemma double_2: "round_binary 53 (- 1022) 2 = 2"
  by (subst round_binary_eq [of 1]) (simp_all add: pow2_def round_even_def)

lemma double_178_5: "round_binary 53 (- 1022) (357 / 2) = 357 / 2"
  by (subst round_binary_eq [of 7]) (simp_all add: pow2_def round_even_def)

lemma double_0_7: "round_binary 53 (- 1022) (7 / 10) = 3152519739159347 / 4503599627370496"
  by (subst round_binary_eq [of "- 1"]) (simp_all add: pow2_def round_even_def)

lemma single_1: "round_binary 24 (- 126) 1 = 1"
  by (subst round_binary_eq [of 0]) (simp_all add: pow2_def round_even_def)

lemma single_2: "round_binary 24 (- 126) 2 = 2"
  by (subst round_binary_eq [of 1]) (simp_all add: pow2_def round_even_def)

lemma single_0_7:
  "round_binary 24 (- 126) (3152519739159347 / 4503599627370496) = 11744051 / 16777216"
  by (subst round_binary_eq [of "- 1"]) (simp_all add: pow2_def round_even_def)

lemma py_truediv_0: "py_truediv 0 255 = Inr 0"
  by (simp add: py_truediv_def py_float_def round_binary_def pow2_def)

lemma py_truediv_255: "py_truediv 255 255 = Inr 1"
  by (simp add: py_truediv_def py_float_def double_255 double_1 pow2_def)

lemma py_truediv_510: "py_truediv 510 255 = Inr 2"
  by (simp add: py_truediv_def py_float_def double_510 double_2 pow2_def)

lemma py_truediv_178_5: "py_truediv (357 / 2) 255 = Inr (3152519739159347 / 4503599627370496)"
  by (simp add: py_truediv_def py_float_def double_178_5 double_0_7 pow2_def)

lemma to_float32_0: "to_float32 0 = F32 0"
  by (simp add: to_float32_def round_binary_def pow2_def)

lemma to_float32_1: "to_float32 1 = F32 1"
  by (simp add: to_float32_def single_1 pow2_def)

lemma to_float32_2: "to_float32 2 = F32 2"
  by (simp add: to_float32_def single_2 pow2_def)

lemma to_float32_0_7:
  "to_float32 (3152519739159347 / 4503599627370496) = F32 (11744051 / 16777216)"
  by (simp add: to_float32_def single_0_7 pow2_def)

section \<open>Evaluation of the concrete inputs\<close>

lemma upt_0_3: "[0..<3] = [0, 1, 2]"
  by (simp add: upt_rec)

lemmas tensor_defs =
  cleaning_pass_def view4_def view5_def tensor_add_def stack_dim1_def iadd_time_def
  select_time_def add_frame_def unflatten_def batch_shape_def size5_def clip_numel_def
  batch_numel_def mean_abs_of_def tensor_lt_def call_cleaning_def call_basicvsr_def
  mergeable_def example_mean_def to_float32_0 to_float32_1 to_float32_2 pow2_def

lemmas example_defs =
  example_clip_def empty_clip_def example_cleaning_def example_residue_def
  example_basicvsr_def example_net_def example_param_def requires_grad_'_def

lemma example_init_0:
  "init example_new_cleaning example_new_basicvsr mc npb ncb 0 sp fix sq
   = Inr (example_net 0 fix sq)"
  by (simp add: init_def py_truediv_0 example_net_def example_new_cleaning_def
        example_new_basicvsr_def)

lemma example_init_510:
  "init example_new_cleaning example_new_basicvsr mc npb ncb 510 sp fix sq
   = Inr (example_net 510 fix sq)"
  by (simp add: init_def py_truediv_510 example_net_def example_new_cleaning_def
        example_new_basicvsr_def)

lemma example_init_255:
  "init example_new_cleaning example_new_basicvsr mc npb ncb 255 sp fix sq
   = Inr (example_net 255 fix sq)"
  by (simp add: init_def py_truediv_255 example_net_def example_new_cleaning_def
        example_new_basicvsr_def)

lemma example_pass_batched:
  "cleaning_pass (call_cleaning example_cleaning (example_net 510 False False)) False
     (size5 example_clip) [example_clip] 0
   = (Inr (Res4 \<lparr>batch_b = 2, batch_c = 1, batch_h = 1, batch_w = 1,
                  batch_frames = [[1], [1]]\<rparr>, 1),
      [example_clip, example_clip\<lparr>clip_rows := [[[2], [3]]], clip_layout := Split_axis\<rparr>])"
  by (simp add: tensor_defs example_defs upt_rec)

lemma example_cleaning_sequential:
  "cleaning example_mean example_cleaning (example_net 0 False True) [example_clip] 0
   = (3, Inr 0, [example_clip\<lparr>clip_rows := [[[4], [5]]]\<rparr>])"
  by (simp add: cleaning_def upt_0_3 tensor_defs example_defs upt_rec)

section \<open>The number of cleaning passes\<close>

lemma refine_loop_count_le:
  "fst (refine_loop rd ic sq thres dims its st lqs) \<le> length its"
proof (induction its arbitrary: st lqs)
  case Nil
  show ?case by simp
next
  case (Cons i its)
  show ?case
  proof (cases "cleaning_pass ic sq dims st lqs")
    case (Pair r st')
    show ?thesis
    proof (cases r)
      case (Inl e)
      with Pair show ?thesis by simp
    next
      case (Inr p)
      obtain res lqs' where p: "p = (res, lqs')" by (cases p)
      obtain k r' st'' where rec: "refine_loop rd ic sq thres dims its st' lqs' = (k, r', st'')"
        by (cases "refine_loop rd ic sq thres dims its st' lqs'")
      have "k \<le> length its" using Cons.IH [of st' lqs'] rec by simp
      with Pair Inr p rec show ?thesis by simp
    qed
  qed
qed

lemma refine_loop_count_ge:
  "its \<noteq> [] \<Longrightarrow> 1 \<le> fst (refine_loop rd ic sq thres dims its st lqs)"
  by (cases its) (auto split: prod.splits sum.splits)

text \<open>
  C3. Whatever the clip, the networks and the store, the loop of \<^verbatim>\<open>forward\<close> begins at
  least one and at most three cleaning passes. (A pass that raises counts as begun.)
\<close>

theorem iterations_between_1_and_3:
  "1 \<le> cleaning_iterations rd cf m st lqs \<and> cleaning_iterations rd cf m st lqs \<le> 3"
proof -
  let ?k = "fst (refine_loop rd (call_cleaning cf m) (is_sequential_cleaning m)
                   (dynamic_refine_thres m) (size5 (st ! lqs)) [0, 1, 2] st lqs)"
  have "?k \<le> length [0::nat, 1, 2]" by (rule refine_loop_count_le)
  moreover have "1 \<le> ?k" by (rule refine_loop_count_ge) simp
  ultimately show ?thesis
    by (simp add: cleaning_iterations_def cleaning_def upt_0_3)
qed

text \<open>
  C4, as stated, fails where the mean lies between the threshold and the threshold rounded
  to single precision. The constructor called with 178.5 stores the double nearest to
  \<open>178.5 / 255\<close>, a little below 0.7. On a clip of shape \<open>(1, 1, 3, 1, 1)\<close>, with a cleaning
  network whose residue is everywhere the single-precision number nearest to 0.7, the mean
  of the first pass is that number, \<open>11744051 / 2 ^ 24\<close>: it is strictly below the stored
  threshold, and the loop runs three passes. For the test is made in single precision,
  where the threshold is that same number.
\<close>

theorem below_double_threshold_three_iterations:
  "init example_new_cleaning example_new_basicvsr 64 20 20 (357 / 2) None False False
     = Inr net_178_5
   \<and> cleaning_pass (call_cleaning near_07_cleaning net_178_5) (is_sequential_cleaning net_178_5)
         (size5 ([rgb_clip] ! 0)) [rgb_clip] 0
     = (Inr (Res4 \<lparr>batch_b = 1, batch_c = 3, batch_h = 1, batch_w = 1,
                    batch_frames = [[near_07, near_07, near_07]]\<rparr>, 1),
        [rgb_clip, rgb_clip\<lparr>clip_rows := [[[1 + near_07, 2 + near_07, 3 + near_07]]],
                          clip_layout := Split_axis\<rparr>])
   \<and> mean_abs example_mean
         (Res4 \<lparr>batch_b = 1, batch_c = 3, batch_h = 1, batch_w = 1,
                batch_frames = [[near_07, near_07, near_07]]\<rparr>)
     = Mean_Units (11744051 * 2 ^ 125)
   \<and> real (11744051 * 2 ^ 125) * pow2 (- 149) = 11744051 / 16777216
   \<and> 11744051 / 16777216 < dynamic_refine_thres net_178_5
   \<and> cleaning_iterations example_mean near_07_cleaning net_178_5 [rgb_clip] 0 = 3"
proof (intro conjI)
  show "init example_new_cleaning example_new_basicvsr 64 20 20 (357 / 2) None False False
          = Inr net_178_5"
    by (simp add: init_def py_truediv_178_5 net_178_5_def example_new_cleaning_def
          example_new_basicvsr_def)
  show "cleaning_pass (call_cleaning near_07_cleaning net_178_5)
          (is_sequential_cleaning net_178_5) (size5 ([rgb_clip] ! 0)) [rgb_clip] 0
        = (Inr (Res4 \<lparr>batch_b = 1, batch_c = 3, batch_h = 1, batch_w = 1,
                       batch_frames = [[near_07, near_07, near_07]]\<rparr>, 1),
           [rgb_clip, rgb_clip\<lparr>clip_rows := [[[1 + near_07, 2 + near_07, 3 + near_07]]],
                             clip_layout := Split_axis\<rparr>])"
    by (simp add: cleaning_pass_def view4_def view5_def tensor_add_def add_frame_def
          unflatten_def batch_shape_def size5_def clip_numel_def mergeable_def
          call_cleaning_def near_07_cleaning_def net_178_5_def rgb_clip_def)
  show "mean_abs example_mean
          (Res4 \<lparr>batch_b = 1, batch_c = 3, batch_h = 1, batch_w = 1,
                 batch_frames = [[near_07, near_07, near_07]]\<rparr>)
        = Mean_Units (11744051 * 2 ^ 125)"
    by (simp add: mean_abs_of_def batch_numel_def example_mean_def near_07_def)
  show "real (11744051 * 2 ^ 125) * pow2 (- 149) = 11744051 / 16777216"
    by (simp add: pow2_def)
  show "11744051 / 16777216 < dynamic_refine_thres net_178_5"
    by (simp add: net_178_5_def)
  show "cleaning_iterations example_mean near_07_cleaning net_178_5 [rgb_clip] 0 = 3"
    by (simp add: cleaning_iterations_def cleaning_def upt_0_3 cleaning_pass_def view4_def
          view5_def tensor_add_def add_frame_def unflatten_def batch_shape_def size5_def
          clip_numel_def batch_numel_def mergeable_def call_cleaning_def near_07_cleaning_def
          net_178_5_def rgb_clip_def mean_abs_of_def example_mean_def tensor_lt_def
          to_float32_0_7 pow2_def near_07_def)
qed

text \<open>
  C4, amended. When the first pass succeeds and the mean of the absolute values of its
  residues, a single-precision number, is strictly below the module's threshold rounded
  to single precision, the loop stops after exactly one pass. (The threshold is the double
  nearest to the constructor's argument divided by 255; rounded to single precision it may
  be an infinity.)
\<close>

theorem below_threshold_one_iteration:
  assumes "cleaning_pass (call_cleaning cf m) (is_sequential_cleaning m) (size5 (st ! lqs)) st lqs
             = (Inr (res, lqs'), st')"
    and "mean_abs rd res = Mean_Units k"
    and "below (real k * pow2 (- 149)) (to_float32 (dynamic_refine_thres m))"
  shows "cleaning_iterations rd cf m st lqs = 1"
  using assms
  by (simp add: cleaning_iterations_def cleaning_def upt_0_3 tensor_lt_def)

theorem below_threshold_one_iteration_witness:
  "to_float32 (dynamic_refine_thres (example_net 510 False False)) = F32 2
   \<and> real (2 ^ 149) * pow2 (- 149) < 2
   \<and> cleaning_iterations example_mean example_cleaning (example_net 510 False False)
         [example_clip] 0 = 1"
proof -
  have t: "to_float32 (dynamic_refine_thres (example_net 510 False False)) = F32 2"
    by (simp add: example_net_def to_float32_2)
  have m: "mean_abs example_mean
             (Res4 \<lparr>batch_b = 2, batch_c = 1, batch_h = 1, batch_w = 1,
                    batch_frames = [[1], [1]]\<rparr>) = Mean_Units (2 ^ 149)"
    by (simp add: mean_abs_of_def batch_numel_def example_mean_def)
  have v: "real (2 ^ 149) * pow2 (- 149) < 2"
    by (simp add: pow2_def)
  from t v have b: "below (real (2 ^ 149) * pow2 (- 149))
                      (to_float32 (dynamic_refine_thres (example_net 510 False False)))"
    by simp
  have p: "cleaning_pass (call_cleaning example_cleaning (example_net 510 False False))
             (is_sequential_cleaning (example_net 510 False False))
             (size5 ([example_clip] ! 0)) [example_clip] 0
           = (Inr (Res4 \<lparr>batch_b = 2, batch_c = 1, batch_h = 1, batch_w = 1,
                          batch_frames = [[1], [1]]\<rparr>, 1),
              [example_clip,
               example_clip\<lparr>clip_rows := [[[2], [3]]], clip_layout := Split_axis\<rparr>])"
    using example_pass_batched by (simp add: example_net_def)
  from below_threshold_one_iteration [OF p m b] t v show ?thesis by simp
qed

lemma not_below_zero: "\<not> tensor_lt m 0"
  by (cases m) (simp_all add: tensor_lt_def to_float32_0 pow2_def not_less)

lemma refine_loop_no_exit:
  "refine_loop rd ic sq 0 dims its st lqs = (k, Inr a, st') \<Longrightarrow> k = length its"
proof (induction its arbitrary: st lqs k)
  case Nil
  then show ?case by simp
next
  case (Cons i its)
  obtain r st1 where pass: "cleaning_pass ic sq dims st lqs = (r, st1)"
    by (cases "cleaning_pass ic sq dims st lqs")
  show ?case
  proof (cases r)
    case (Inl e)
    with pass Cons.prems show ?thesis by simp
  next
    case (Inr p)
    obtain res lqs1 where p: "p = (res, lqs1)" by (cases p)
    obtain k1 r1 st2 where rec: "refine_loop rd ic sq 0 dims its st1 lqs1 = (k1, r1, st2)"
      by (cases "refine_loop rd ic sq 0 dims its st1 lqs1")
    from Cons.prems pass Inr p rec have "k = Suc k1" "r1 = Inr a" "st2 = st'"
      by (simp_all add: not_below_zero)
    with Cons.IH [of st1 lqs1 k1] rec show ?thesis by simp
  qed
qed

text \<open>
  C5. A module constructed with \<^verbatim>\<open>dynamic_refine_thres = 0\<close> never takes the early exit:
  whenever the cleaning loop of \<^verbatim>\<open>forward\<close> ends without an exception it has run all
  three passes. A mean of absolute values is never below 0, in whatever order the library
  adds, so this holds whether or not the residues are nonzero.
\<close>

theorem zero_threshold_three_iterations:
  assumes "init nc nb mc npb ncb 0 sp fix sq = Inr m"
    and "cleaning rd cf m st lqs = (k, Inr a, st')"
  shows "k = 3 \<and> cleaning_iterations rd cf m st lqs = 3"
proof -
  from assms(1) have "dynamic_refine_thres m = 0"
    by (auto simp: init_def py_truediv_0 Let_def split: sum.splits)
  with assms(2) have "refine_loop rd (call_cleaning cf m) (is_sequential_cleaning m) 0
      (size5 (st ! lqs)) [0, 1, 2] st lqs = (k, Inr a, st')"
    by (simp add: cleaning_def upt_0_3)
  from refine_loop_no_exit [OF this] have "k = 3" by simp
  with assms(2) show ?thesis by (simp add: cleaning_iterations_def)
qed

theorem zero_threshold_three_iterations_witness:
  "cleaning_iterations example_mean example_cleaning (example_net 0 False True) [example_clip] 0 = 3"
  using zero_threshold_three_iterations [OF example_init_0 example_cleaning_sequential]
  by simp

section \<open>What forward returns\<close>

lemma forward_return_lqs:
  "fst (forward rd cf bf m st lqs True) = Inr r \<Longrightarrow> r = Returned_None"
  by (auto simp: forward_def split: prod.splits sum.splits)

lemma example_cleaning_batched:
  "cleaning example_mean example_cleaning (example_net 255 False False) [example_clip] 0
   = (3, Inr 3,
      [example_clip, example_clip\<lparr>clip_rows := [[[2], [3]]], clip_layout := Split_axis\<rparr>,
       example_clip\<lparr>clip_rows := [[[3], [4]]], clip_layout := Split_axis\<rparr>, example_clip\<lparr>clip_rows := [[[4], [5]]], clip_layout := Split_axis\<rparr>])"
  by (simp add: cleaning_def upt_0_3 tensor_defs example_defs upt_rec)

text \<open>
  C1. With \<^verbatim>\<open>return_lqs\<close> set, \<^verbatim>\<open>forward\<close> is expected to return the pair of the
  upscaled clip and the cleaned clip. On the clip of shape \<open>(1, 2, 1, 1, 1)\<close>, with networks
  that do not raise, the call returns \<^verbatim>\<open>None\<close>: the pair is built by an expression
  statement and dropped. (By \<open>forward_return_lqs\<close> this is so for every input.)
\<close>

theorem forward_return_lqs_returns_None:
  "fst (forward example_mean example_cleaning example_basicvsr (example_net 255 False False)
          [example_clip] 0 True) = Inr Returned_None"
  by (simp add: forward_def example_cleaning_batched call_basicvsr_def example_basicvsr_def)

section \<open>The type check of init_weights\<close>

text \<open>
  C7. \<^verbatim>\<open>init_weights\<close> raises its \<^verbatim>\<open>TypeError\<close> exactly when \<^verbatim>\<open>pretrained\<close> is neither a
  string nor \<^verbatim>\<open>None\<close>, and the message then ends in the printed type of the value
  received. With \<^verbatim>\<open>None\<close> it returns without an exception and without calling the loader:
  the module is the one it was given, whatever the loader is.
\<close>

theorem init_weights_type_error:
  "((\<exists>msg. init_weights lc self p strict = Inl (TypeError msg))
      \<longleftrightarrow> (\<forall>s. p \<noteq> PyStr s) \<and> p \<noteq> PyNone)
   \<and> (\<forall>msg. init_weights lc self p strict = Inl (TypeError msg) \<longrightarrow>
          msg = [CHR 0x22] @ ''pretrained'' @ [CHR 0x22] @ '' must be a str or None. ''
                @ ''But received '' @ type_repr p @ ''.'')
   \<and> init_weights lc self PyNone strict = Inr self"
  by (cases p) (auto simp: init_weights_def type_error_message_def split: sum.splits)

theorem init_weights_type_error_witness:
  "init_weights example_loader (example_net 255 False False) (PyInt 3) True
     = Inl (TypeError ([CHR 0x22] @ ''pretrained'' @ [CHR 0x22] @ '' must be a str or None. ''
                @ ''But received <class '' @ [CHR 0x27] @ ''int'' @ [CHR 0x27] @ ''>.''))
   \<and> init_weights example_loader (example_net 255 False False) PyNone True
     = Inr (example_net 255 False False)"
  using init_weights_type_error [of example_loader "example_net 255 False False" "PyInt 3" True]
  by (auto simp: type_repr_def)

section \<open>The flags set by the constructor\<close>

text \<open>
  C8. After a construction that succeeds, no parameter of \<^verbatim>\<open>spynet\<close> requires a gradient,
  whatever \<^verbatim>\<open>is_fix_cleaning\<close> is. With \<^verbatim>\<open>is_fix_cleaning\<close> no parameter of the cleaning
  module requires one; without it the cleaning module's parameters are as its constructor
  made them, so if they were made trainable (the library's default) they require a
  gradient exactly when \<^verbatim>\<open>is_fix_cleaning\<close> is not set. In both cases the cleaning module
  computes with the values its constructor gave it.
\<close>

theorem init_requires_grad:
  assumes "init nc nb mc npb ncb thres sp fix sq = Inr m"
  shows "(\<forall>p \<in> set (spynet (basicvsr m)). \<not> requires_grad p)
       \<and> (fix \<longrightarrow> (\<forall>p \<in> set (image_cleaning m). \<not> requires_grad p))
       \<and> (\<not> fix \<longrightarrow> image_cleaning m = nc mc ncb)
       \<and> ((\<forall>p \<in> set (nc mc ncb). requires_grad p) \<longrightarrow>
            (\<forall>p \<in> set (image_cleaning m). requires_grad p \<longleftrightarrow> \<not> fix))
       \<and> call_cleaning cf m = cf (map param_values (nc mc ncb))"
  using assms
  by (auto simp: init_def Let_def requires_grad_'_def call_cleaning_def fun_eq_iff o_def
           split: sum.splits if_splits)

theorem init_requires_grad_witness:
  "map requires_grad (spynet (basicvsr (example_net 255 True False))) = [False]
   \<and> map requires_grad (image_cleaning (example_net 255 True False)) = [False, False]
   \<and> map requires_grad (image_cleaning (example_net 255 False False)) = [True, True]
   \<and> map param_values (image_cleaning (example_net 255 True False))
       = map param_values (image_cleaning (example_net 255 False False))"
  using init_requires_grad [OF example_init_255 [of 64 20 20 None True False]]
        init_requires_grad [OF example_init_255 [of 64 20 20 None False False]]
  by (simp add: example_new_cleaning_def example_defs)

section \<open>What a pass leaves in place\<close>

lemma iadd_time_size: "iadd_time x i r = Inr y \<Longrightarrow> size5 y = size5 x"
  by (auto simp: iadd_time_def size5_def split: if_splits)

lemma iadd_time_error:
  "iadd_time x i r = Inl e \<Longrightarrow> e = RuntimeError ''size mismatch in add''"
  by (auto simp: iadd_time_def split: if_splits)

lemma sequential_frames_store:
  "sequential_frames ic lqs js st rs = (r, st') \<Longrightarrow> lqs < length st \<Longrightarrow>
   length st' = length st \<and> size5 (st' ! lqs) = size5 (st ! lqs)
   \<and> (\<forall>a. a \<noteq> lqs \<longrightarrow> st' ! a = st ! a)"
proof (induction js arbitrary: st rs)
  case Nil
  then show ?case by simp
next
  case (Cons i js)
  show ?case
  proof (cases "ic (select_time (st ! lqs) i)")
    case (Inl e)
    with Cons.prems show ?thesis by simp
  next
    case (Inr residue_i)
    show ?thesis
    proof (cases "iadd_time (st ! lqs) i residue_i")
      case (Inl e)
      with Inr Cons.prems show ?thesis by simp
    next
      case inr: (Inr x)
      from Cons.prems Inr inr
      have rec: "sequential_frames ic lqs js (st[lqs := x]) (rs @ [residue_i]) = (r, st')"
        by simp
      have "lqs < length (st[lqs := x])" using Cons.prems(2) by simp
      from Cons.IH [OF rec this] iadd_time_size [OF inr] Cons.prems(2)
      show ?thesis by simp
    qed
  qed
qed

lemma sequential_frames_result:
  "sequential_frames ic lqs js st rs = (r, st') \<Longrightarrow>
   (case r of
      Inr rs' \<Rightarrow> length rs' = length rs + length js
    | Inl e \<Rightarrow> e \<noteq> RuntimeError ''stack expects a non-empty TensorList'')"
proof (induction js arbitrary: st rs)
  case Nil
  then show ?case by auto
next
  case (Cons i js)
  show ?case
  proof (cases "ic (select_time (st ! lqs) i)")
    case (Inl e)
    with Cons.prems show ?thesis by auto
  next
    case (Inr residue_i)
    show ?thesis
    proof (cases "iadd_time (st ! lqs) i residue_i")
      case (Inl e)
      with Inr Cons.prems iadd_time_error [OF Inl] show ?thesis by auto
    next
      case inr: (Inr x)
      from Cons.prems Inr inr
      have rec: "sequential_frames ic lqs js (st[lqs := x]) (rs @ [residue_i]) = (r, st')"
        by simp
      from Cons.IH [OF rec] show ?thesis by (simp split: sum.splits)
    qed
  qed
qed

lemma stack_dim1_nonempty:
  "ts \<noteq> [] \<Longrightarrow> stack_dim1 ts \<noteq> Inl (RuntimeError ''stack expects a non-empty TensorList'')"
  by (cases ts) (auto simp: stack_dim1_def)

lemma view4_error:
  "view4 x c h w \<noteq> Inl (RuntimeError ''stack expects a non-empty TensorList'')"
  by (auto simp: view4_def)

lemma tensor_add_error:
  "tensor_add x r \<noteq> Inl (RuntimeError ''stack expects a non-empty TensorList'')"
  by (auto simp: tensor_add_def)

lemma view5_error:
  "view5 x n t c h w \<noteq> Inl (RuntimeError ''stack expects a non-empty TensorList'')"
  by (auto simp: view5_def)

lemma cleaning_pass_no_stack_error:
  assumes "0 < t"
  shows "fst (cleaning_pass ic sq (n, t, c, h, w) st lqs)
           \<noteq> Inl (RuntimeError ''stack expects a non-empty TensorList'')"
proof (cases sq)
  case True
  obtain r st' where sf: "sequential_frames ic lqs [0..<t] st [] = (r, st')"
    by (cases "sequential_frames ic lqs [0..<t] st []")
  show ?thesis
  proof (cases r)
    case (Inl e)
    with sequential_frames_result [OF sf] True sf show ?thesis
      by (simp add: cleaning_pass_def)
  next
    case (Inr rs)
    with sequential_frames_result [OF sf] assms have "rs \<noteq> []" by auto
    from stack_dim1_nonempty [OF this] True sf Inr show ?thesis
      by (auto simp: cleaning_pass_def split: sum.splits)
  qed
next
  case False
  then show ?thesis
    using view4_error [of "st ! lqs" c h w]
    by (auto simp: cleaning_pass_def tensor_add_def view5_def split: sum.splits if_splits)
qed

lemma refine_loop_no_stack_error:
  assumes "0 < t"
  shows "fst (snd (refine_loop rd ic sq thres (n, t, c, h, w) its st lqs))
           \<noteq> Inl (RuntimeError ''stack expects a non-empty TensorList'')"
proof (induction its arbitrary: st lqs)
  case Nil
  show ?case by simp
next
  case (Cons i its)
  obtain r st1 where pass: "cleaning_pass ic sq (n, t, c, h, w) st lqs = (r, st1)"
    by (cases "cleaning_pass ic sq (n, t, c, h, w) st lqs")
  show ?case
  proof (cases r)
    case (Inl e)
    with pass cleaning_pass_no_stack_error [OF assms, of ic sq n c h w st lqs]
    show ?thesis by simp
  next
    case (Inr p)
    obtain res lqs1 where p: "p = (res, lqs1)" by (cases p)
    obtain k1 r1 st2 where rec: "refine_loop rd ic sq thres (n, t, c, h, w) its st1 lqs1 = (k1, r1, st2)"
      by (cases "refine_loop rd ic sq thres (n, t, c, h, w) its st1 lqs1")
    with Cons.IH [of st1 lqs1] pass Inr p show ?thesis by simp
  qed
qed

text \<open>
  C10. Under sequential cleaning a clip without frames (\<open>t = 0\<close>) makes \<^verbatim>\<open>forward\<close> raise:
  the list of residues is empty when it is stacked, and the store is as it was. A clip
  with at least one frame never raises that error, so \<open>t \<ge> 1\<close> is what the sequential
  strategy needs for it.
\<close>

theorem sequential_needs_a_frame:
  assumes "is_sequential_cleaning m"
  shows "(clip_t (st ! lqs) = 0 \<longrightarrow>
            forward rd cf bf m st lqs return_lqs
              = (Inl (RuntimeError ''stack expects a non-empty TensorList''), st))
       \<and> (0 < clip_t (st ! lqs) \<longrightarrow>
            fst (forward rd cf bf m st lqs return_lqs)
              \<noteq> Inl (RuntimeError ''stack expects a non-empty TensorList''))"
proof (intro conjI impI)
  assume "clip_t (st ! lqs) = 0"
  with assms show "forward rd cf bf m st lqs return_lqs
              = (Inl (RuntimeError ''stack expects a non-empty TensorList''), st)"
    by (simp add: forward_def cleaning_def upt_0_3 size5_def cleaning_pass_def stack_dim1_def)
next
  assume t: "0 < clip_t (st ! lqs)"
  obtain k r st' where c: "cleaning rd cf m st lqs = (k, r, st')"
    by (cases "cleaning rd cf m st lqs")
  from refine_loop_no_stack_error [OF t] c
  have "r \<noteq> Inl (RuntimeError ''stack expects a non-empty TensorList'')"
    unfolding cleaning_def size5_def by (metis fst_conv snd_conv)
  with c show "fst (forward rd cf bf m st lqs return_lqs)
              \<noteq> Inl (RuntimeError ''stack expects a non-empty TensorList'')"
    by (auto simp: forward_def split: sum.splits)
qed

theorem sequential_needs_a_frame_witness:
  "forward example_mean example_cleaning example_basicvsr (example_net 255 False True) [empty_clip] 0 False
     = (Inl (RuntimeError ''stack expects a non-empty TensorList''), [empty_clip])
   \<and> fst (forward example_mean example_cleaning example_basicvsr (example_net 255 False True)
            [example_clip] 0 False)
     \<noteq> Inl (RuntimeError ''stack expects a non-empty TensorList'')"
  using sequential_needs_a_frame [where m = "example_net 255 False True" and st = "[empty_clip]"
          and lqs = 0 and rd = example_mean and cf = example_cleaning
          and bf = example_basicvsr and return_lqs = False]
        sequential_needs_a_frame [where m = "example_net 255 False True" and st = "[example_clip]"
          and lqs = 0 and rd = example_mean and cf = example_cleaning
          and bf = example_basicvsr and return_lqs = False]
  by (simp add: example_net_def empty_clip_def example_clip_def)


section \<open>The shape of the cleaned clip and of the output\<close>

lemma cleaning_pass_size:
  assumes "cleaning_pass ic sq dims st lqs = (Inr (res, lqs'), st')"
    and "lqs < length st" and "size5 (st ! lqs) = dims"
  shows "lqs' < length st' \<and> size5 (st' ! lqs') = dims"
proof -
  obtain n t c h w where dims: "dims = (n, t, c, h, w)" by (cases dims)
  show ?thesis
  proof (cases sq)
    case True
    obtain r st1 where sf: "sequential_frames ic lqs [0..<t] st [] = (r, st1)"
      by (cases "sequential_frames ic lqs [0..<t] st []")
    from assms(1) True dims sf have "lqs' = lqs" "st' = st1"
      by (auto simp: cleaning_pass_def split: sum.splits)
    with sequential_frames_store [OF sf assms(2)] assms(2,3) show ?thesis by simp
  next
    case False
    with assms(1) dims obtain s y where y: "view5 s n t c h w = Inr y"
      and "st' = st @ [y]" "lqs' = length st"
      by (auto simp: cleaning_pass_def split: sum.splits)
    moreover from y have "size5 y = (n, t, c, h, w)"
      by (auto simp: view5_def size5_def split: if_splits)
    ultimately show ?thesis using dims by simp
  qed
qed

lemma refine_loop_size:
  "refine_loop rd ic sq thres dims its st lqs = (k, Inr a, st') \<Longrightarrow>
   lqs < length st \<Longrightarrow> size5 (st ! lqs) = dims \<Longrightarrow>
   a < length st' \<and> size5 (st' ! a) = dims"
proof (induction its arbitrary: st lqs k)
  case Nil
  then show ?case by simp
next
  case (Cons i its)
  obtain r st1 where pass: "cleaning_pass ic sq dims st lqs = (r, st1)"
    by (cases "cleaning_pass ic sq dims st lqs")
  show ?case
  proof (cases r)
    case (Inl e)
    with pass Cons.prems show ?thesis by simp
  next
    case (Inr p)
    obtain res lqs1 where p: "p = (res, lqs1)" by (cases p)
    from cleaning_pass_size [OF pass [unfolded Inr p] Cons.prems(2,3)]
    have inv: "lqs1 < length st1" "size5 (st1 ! lqs1) = dims" by simp_all
    show ?thesis
    proof (cases "tensor_lt (mean_abs rd res) thres")
      case True
      with Cons.prems(1) pass Inr p inv show ?thesis by simp
    next
      case False
      obtain k1 r1 st2 where rec: "refine_loop rd ic sq thres dims its st1 lqs1 = (k1, r1, st2)"
        by (cases "refine_loop rd ic sq thres dims its st1 lqs1")
      with Cons.prems(1) pass Inr p False have "r1 = Inr a" "st2 = st'" by simp_all
      with Cons.IH [OF _ inv, of k1] rec show ?thesis by simp
    qed
  qed
qed

lemma cleaned_clip_size:
  "cleaned_clip rd cf m st lqs = Inr cl \<Longrightarrow> lqs < length st \<Longrightarrow> size5 cl = size5 (st ! lqs)"
proof -
  assume a: "cleaned_clip rd cf m st lqs = Inr cl" and v: "lqs < length st"
  obtain k r st' where c: "cleaning rd cf m st lqs = (k, r, st')"
    by (cases "cleaning rd cf m st lqs")
  with a obtain lqs' where r: "r = Inr lqs'" and cl: "cl = st' ! lqs'"
    by (auto simp: cleaned_clip_def split: sum.splits)
  from c r have "refine_loop rd (call_cleaning cf m) (is_sequential_cleaning m)
       (dynamic_refine_thres m) (size5 (st ! lqs)) [0..<3] st lqs = (k, Inr lqs', st')"
    by (simp add: cleaning_def)
  from refine_loop_size [OF this v refl] cl show ?thesis by simp
qed

text \<open>
  C9. When \<^verbatim>\<open>forward\<close> returns a clip, that clip is what the propagation network made of
  the cleaned clip, and the cleaned clip has the height and width of the input. So with
  a propagation network that upscales by 4 the height and width returned are 4 times
  those of the cleaned clip.
\<close>

theorem output_is_x4:
  assumes "upscales_x4 bf"
    and "lqs < length st"
    and "forward rd cf bf m st lqs False = (Inr (Returned out), st')"
  shows "\<exists>cl. cleaned_clip rd cf m st lqs = Inr cl
            \<and> clip_h out = 4 * clip_h cl \<and> clip_w out = 4 * clip_w cl
            \<and> clip_h cl = clip_h (st ! lqs) \<and> clip_w cl = clip_w (st ! lqs)"
proof -
  obtain k r st1 where c: "cleaning rd cf m st lqs = (k, r, st1)"
    by (cases "cleaning rd cf m st lqs")
  with assms(3) obtain lqs' where r: "r = Inr lqs'"
    and out: "call_basicvsr bf m (st1 ! lqs') = Inr out"
    by (auto simp: forward_def split: sum.splits)
  let ?cl = "st1 ! lqs'"
  have cl: "cleaned_clip rd cf m st lqs = Inr ?cl"
    using c r by (simp add: cleaned_clip_def)
  from out assms(1) have "clip_h out = 4 * clip_h ?cl \<and> clip_w out = 4 * clip_w ?cl"
    unfolding upscales_x4_def call_basicvsr_def by blast
  moreover from cleaned_clip_size [OF cl assms(2)]
  have "clip_h ?cl = clip_h (st ! lqs) \<and> clip_w ?cl = clip_w (st ! lqs)"
    by (simp add: size5_def)
  ultimately show ?thesis using cl by blast
qed

lemma example_upscales: "upscales_x4 example_basicvsr"
  by (auto simp: upscales_x4_def example_basicvsr_def)

lemma example_forward:
  "forward example_mean example_cleaning example_basicvsr (example_net 255 False False) [example_clip] 0 False
   = (Inr (Returned \<lparr>clip_n = 1, clip_t = 2, clip_c = 1, clip_h = 4, clip_w = 4,
        clip_rows = [[replicate 16 4, replicate 16 5]], clip_layout = Split_axis\<rparr>),
      [example_clip, example_clip\<lparr>clip_rows := [[[2], [3]]], clip_layout := Split_axis\<rparr>,
       example_clip\<lparr>clip_rows := [[[3], [4]]], clip_layout := Split_axis\<rparr>, example_clip\<lparr>clip_rows := [[[4], [5]]], clip_layout := Split_axis\<rparr>])"
  unfolding forward_def example_cleaning_batched
  by (simp add: call_basicvsr_def example_basicvsr_def example_clip_def numeral_eq_Suc)

theorem output_is_x4_witness:
  "\<exists>cl. cleaned_clip example_mean example_cleaning (example_net 255 False False) [example_clip] 0 = Inr cl
      \<and> clip_h cl = 1 \<and> clip_w cl = 1
      \<and> (4::nat) = 4 * clip_h cl \<and> (4::nat) = 4 * clip_w cl"
  using output_is_x4 [OF example_upscales _ example_forward]
  by (auto simp: example_clip_def)

section \<open>What forward does to the store\<close>






section \<open>What forward depends on\<close>










section \<open>The two cleaning strategies\<close>



























end
